theory Spec2Isabelle
  imports Complex_Main "HOL-Library.Sublist"
begin

section \<open>Python values\<close>

text \<open>
  The seed script \<^verbatim>\<open>hpc_demo_setup.py\<close> works on the values a JSON body decodes to.
  A Python \<^verbatim>\<open>str\<close> is a \<open>string\<close> read as a sequence of code points below 256, and
  a \<^verbatim>\<open>dict\<close> is an association list in insertion order whose keys are distinct in
  every decoded body. A JSON number with a fraction or an exponent decodes to a
  \<^verbatim>\<open>float\<close>, which this development does not represent.
\<close>

datatype json =
    JNull
  | JBool bool
  | JInt int
  | JStr string
  | JList "json list"
  | JObj "(string \<times> json) list"

datatype py_error =
    TypeError
  | ValueError
  | AttributeError
  | ZeroDivisionError
  | RemoteError

text \<open>\<^verbatim>\<open>bool(v)\<close>, the test behind \<^verbatim>\<open>if v\<close>, \<^verbatim>\<open>not v\<close> and \<^verbatim>\<open>a or b\<close>.\<close>

fun truthy :: "json \<Rightarrow> bool" where
  "truthy JNull = False"
| "truthy (JBool b) = b"
| "truthy (JInt n) = (n \<noteq> 0)"
| "truthy (JStr s) = (s \<noteq> [])"
| "truthy (JList xs) = (xs \<noteq> [])"
| "truthy (JObj d) = (d \<noteq> [])"

text \<open>\<^verbatim>\<open>a or b\<close>\<close>

definition py_or :: "json \<Rightarrow> json \<Rightarrow> json" where
  "py_or a b = (if truthy a then a else b)"

text \<open>\<^verbatim>\<open>d.get(k)\<close> and \<^verbatim>\<open>d.get(k, default)\<close> on a dict.\<close>

definition dict_get_default :: "(string \<times> json) list \<Rightarrow> string \<Rightarrow> json \<Rightarrow> json" where
  "dict_get_default d k dflt = (case map_of d k of None \<Rightarrow> dflt | Some v \<Rightarrow> v)"

definition dict_get :: "(string \<times> json) list \<Rightarrow> string \<Rightarrow> json" where
  "dict_get d k = dict_get_default d k JNull"

subsection \<open>Strings\<close>

text \<open>\<^verbatim>\<open>sub in s\<close> on two strings.\<close>

fun py_in_str :: "string \<Rightarrow> string \<Rightarrow> bool" where
  "py_in_str sub [] = (sub = [])"
| "py_in_str sub (c # cs) = (prefix sub (c # cs) \<or> py_in_str sub cs)"

text \<open>
  \<^verbatim>\<open>s.lower()\<close>: below code point 256 the cased letters are A to Z and the
  Latin-1 capitals 192 to 222 without the multiplication sign 215; each lies 32 below its
  lower-case form.
\<close>

definition lower_char :: "char \<Rightarrow> char" where
  "lower_char c =
     (let n = (of_char c :: nat)
      in if (65 \<le> n \<and> n \<le> 90) \<or> (192 \<le> n \<and> n \<le> 222 \<and> n \<noteq> 215)
         then char_of (n + 32) else c)"

definition lower :: "string \<Rightarrow> string" where
  "lower s = map lower_char s"

subsection \<open>Rendering: \<^verbatim>\<open>str\<close> and \<^verbatim>\<open>repr\<close>\<close>

definition digit_char :: "nat \<Rightarrow> char" where
  "digit_char d = char_of (48 + d)"

fun nat_digits :: "nat \<Rightarrow> string" where
  "nat_digits n =
     (if n < 10 then [digit_char n] else nat_digits (n div 10) @ [digit_char (n mod 10)])"

definition int_str :: "int \<Rightarrow> string" where
  "int_str i = (if i < 0 then CHR ''-'' # nat_digits (nat (- i)) else nat_digits (nat i))"

definition hex_char :: "nat \<Rightarrow> char" where
  "hex_char d = (if d < 10 then char_of (48 + d) else char_of (87 + d))"

text \<open>
  One character inside \<^verbatim>\<open>repr(s)\<close>, for the quote \<open>q\<close> chosen: the backslash and the
  quote are escaped, tab, line feed and carriage return have their letters, and the other
  characters that are not printable (the controls, 127 to 160 and the soft hyphen 173)
  are written as a backslash, \<open>x\<close> and two hexadecimal digits.
\<close>

definition repr_char :: "char \<Rightarrow> char \<Rightarrow> string" where
  "repr_char q c =
     (let n = (of_char c :: nat) in
      if c = CHR 0x5C then [CHR 0x5C, CHR 0x5C]
      else if c = q then [CHR 0x5C, q]
      else if n = 9 then [CHR 0x5C, CHR ''t'']
      else if n = 10 then [CHR 0x5C, CHR ''n'']
      else if n = 13 then [CHR 0x5C, CHR ''r'']
      else if n < 32 \<or> (127 \<le> n \<and> n \<le> 160) \<or> n = 173
        then [CHR 0x5C, CHR ''x'', hex_char (n div 16), hex_char (n mod 16)]
      else [c])"

text \<open>
  \<^verbatim>\<open>repr(s)\<close> of a string: single quotes, unless the string holds a single quote and no
  double quote.
\<close>

definition repr_str :: "string \<Rightarrow> string" where
  "repr_str s =
     (let q = (if CHR 0x27 \<in> set s \<and> CHR 0x22 \<notin> set s then CHR 0x22 else CHR 0x27)
      in q # concat (map (repr_char q) s) @ [q])"

fun join_comma :: "string list \<Rightarrow> string" where
  "join_comma [] = []"
| "join_comma [x] = x"
| "join_comma (x # y # ys) = x @ '', '' @ join_comma (y # ys)"

fun py_repr :: "json \<Rightarrow> string" where
  "py_repr JNull = ''None''"
| "py_repr (JBool b) = (if b then ''True'' else ''False'')"
| "py_repr (JInt n) = int_str n"
| "py_repr (JStr s) = repr_str s"
| "py_repr (JList xs) = ''['' @ join_comma (map py_repr xs) @ '']''"
| "py_repr (JObj d) =
     ''{'' @ join_comma (map (\<lambda>kv. repr_str (fst kv) @ '': '' @ py_repr (snd kv)) d) @ ''}''"

text \<open>\<^verbatim>\<open>str(v)\<close>, which is also what an f-string field \<^verbatim>\<open>{v}\<close> inserts.\<close>

definition py_str :: "json \<Rightarrow> string" where
  "py_str v = (case v of JStr s \<Rightarrow> s | _ \<Rightarrow> py_repr v)"

subsection \<open>Sequences\<close>

text \<open>
  \<^verbatim>\<open>len(v)\<close>, and the items a \<^verbatim>\<open>for\<close> loop or an unpacking assignment takes from
  \<open>v\<close>: the elements of a list, the characters of a string, the keys of a dict. The
  other values have no length and are not iterable.
\<close>

definition py_len :: "json \<Rightarrow> py_error + nat" where
  "py_len v =
     (case v of JList xs \<Rightarrow> Inr (length xs) | JStr s \<Rightarrow> Inr (length s)
      | JObj d \<Rightarrow> Inr (length d) | _ \<Rightarrow> Inl TypeError)"

definition py_iter :: "json \<Rightarrow> py_error + json list" where
  "py_iter v =
     (case v of JList xs \<Rightarrow> Inr xs | JStr s \<Rightarrow> Inr (map (\<lambda>c. JStr [c]) s)
      | JObj d \<Rightarrow> Inr (map (\<lambda>kv. JStr (fst kv)) d) | _ \<Rightarrow> Inl TypeError)"

section \<open>Interface type inference\<close>

text \<open>
  \<^verbatim>\<open>_normalize_iface_type(hint)\<close>: the guard \<^verbatim>\<open>if not hint\<close>, then the chain of
  substring tests on \<^verbatim>\<open>str(hint).lower()\<close>, in the order of the source.
\<close>

definition normalize_iface_type :: "string \<Rightarrow> string" where
  "normalize_iface_type hint =
     (if hint = [] then ''other''
      else let s = lower hint in
        if py_in_str ''100g'' s then ''100gbase-x-qsfp28''
        else if py_in_str ''25g'' s then ''25gbase-x-sfp28''
        else if py_in_str ''40g'' s then ''40gbase-x-qsfpp''
        else if py_in_str ''10g'' s then ''10gbase-x-sfpp''
        else if py_in_str ''1g'' s \<or> py_in_str ''1000'' s then ''1000base-t''
        else if py_in_str ''lag'' s \<or> py_in_str ''bond'' s \<or> py_in_str ''port-channel'' s
          then ''lag''
        else ''other'')"

text \<open>
  The rule table as the specification words it: each rule is a list of substrings and
  the type it selects; the first rule one of whose substrings occurs in the hint wins, and
  a hint that matches no rule has the type \<open>other\<close>.
\<close>

definition iface_rules :: "(string list \<times> string) list" where
  "iface_rules =
     [([''100g''], ''100gbase-x-qsfp28''),
      ([''25g''], ''25gbase-x-sfp28''),
      ([''40g''], ''40gbase-x-qsfpp''),
      ([''10g''], ''10gbase-x-sfpp''),
      ([''1g'', ''1000''], ''1000base-t''),
      ([''lag'', ''bond'', ''port-channel''], ''lag'')]"

fun first_matching_rule :: "(string list \<times> string) list \<Rightarrow> string \<Rightarrow> string" where
  "first_matching_rule [] s = ''other''"
| "first_matching_rule ((pats, ty) # rules) s =
     (if list_ex (\<lambda>p. sublist p s) pats then ty else first_matching_rule rules s)"

section \<open>The trace printer\<close>

text \<open>
  \<^verbatim>\<open>_term_to_str(term)\<close>. The only step that can raise is \<^verbatim>\<open>dev.get\<close>, when the
  \<^verbatim>\<open>device\<close> entry is a true value that is not a dict.
\<close>

definition term_to_str :: "json \<Rightarrow> py_error + string" where
  "term_to_str term =
     (if \<not> truthy term then Inr ''-''
      else case term of
        JObj d \<Rightarrow>
          (case py_or (dict_get d ''device'') (JObj []) of
             JObj dev \<Rightarrow>
               (let devname = py_or (py_or (dict_get dev ''name'') (dict_get dev ''display''))
                                (JStr []);
                    objtype = py_or (py_or (py_or (dict_get d ''obj_type'') (dict_get d ''type''))
                                       (dict_get d ''object_type''))
                                (JStr ''term'');
                    name = py_or (py_or (dict_get d ''name'') (dict_get d ''display'')) (JStr [])
                in Inr (if truthy devname
                        then py_str objtype @ '':'' @ py_str name @ ''@'' @ py_str devname
                        else py_str objtype @ '':'' @ py_str name))
           | _ \<Rightarrow> Inl AttributeError)
      | _ \<Rightarrow> Inr (py_str term))"

text \<open>
  What the printer writes: the heading \<^verbatim>\<open>print(f"<compass> {title}")\<close>, whose first
  character lies outside the strings of this development, a line of text, and the dump
  of the decoded body by \<^verbatim>\<open>pprint.pp(tr)\<close> (or \<^verbatim>\<open>print(tr)\<close> where that raises).
\<close>

datatype out = Title string | Line string | RawDump json

text \<open>The line \<^verbatim>\<open>f"   {_term_to_str(left)}  --[{label}]-->  {_term_to_str(right)}"\<close>.\<close>

definition paired_line :: "json \<Rightarrow> json \<Rightarrow> json \<Rightarrow> py_error + string" where
  "paired_line left label right =
     (case term_to_str left of
        Inl e \<Rightarrow> Inl e
      | Inr l \<Rightarrow>
          (case term_to_str right of
             Inl e \<Rightarrow> Inl e
           | Inr r \<Rightarrow> Inr (''   '' @ l @ ''  --['' @ py_str label @ '']-->  '' @ r)))"

text \<open>The line \<^verbatim>\<open>f"   {_term_to_str(item)}"\<close>.\<close>

definition item_line :: "json \<Rightarrow> py_error + string" where
  "item_line item =
     (case term_to_str item of Inl e \<Rightarrow> Inl e | Inr t \<Rightarrow> Inr (''   '' @ t))"

text \<open>
  The body of the loop of case A, for one \<open>hop\<close>. \<^verbatim>\<open>len(hop)\<close> raises on a value
  without a length; a string or a dict of length three unpacks into its characters or its
  keys.
\<close>

definition hop_line :: "json \<Rightarrow> py_error + string" where
  "hop_line hop =
     (case py_len hop of
        Inl e \<Rightarrow> Inl e
      | Inr n \<Rightarrow>
          if n = 3 then
            (case py_iter hop of
               Inr [left, cable, right] \<Rightarrow>
                 (let label = (case cable of
                                 JObj c \<Rightarrow>
                                   (case py_or cable (JObj []) of
                                      JObj c' \<Rightarrow> dict_get c' ''label''
                                    | _ \<Rightarrow> JNull)
                               | _ \<Rightarrow> JStr ''cable'')
                  in paired_line left label right)
             | Inr _ \<Rightarrow> Inl ValueError
             | Inl e \<Rightarrow> Inl e)
          else item_line hop)"

text \<open>
  The body of the loop of case B, for one \<open>seg\<close>: \<^verbatim>\<open>seg.get\<close> raises unless the
  segment is a dict, and \<^verbatim>\<open>cable.get\<close> raises when the \<^verbatim>\<open>cable\<close> entry is a true
  value that is not a dict.
\<close>

definition seg_line :: "json \<Rightarrow> py_error + string" where
  "seg_line seg =
     (case seg of
        JObj s \<Rightarrow>
          (let left = py_or (py_or (dict_get s ''termination_a'') (dict_get s ''a''))
                        (dict_get s ''from'');
               right = py_or (py_or (dict_get s ''termination_b'') (dict_get s ''b''))
                         (dict_get s ''to'')
           in case py_or (dict_get s ''cable'') (JObj []) of
                JObj cable \<Rightarrow>
                  (let label = py_or (py_or (dict_get cable ''label'') (dict_get cable ''display''))
                                 (JStr ''cable'')
                   in if truthy left \<or> truthy right then paired_line left label right
                      else item_line seg)
              | _ \<Rightarrow> Inl AttributeError)
      | _ \<Rightarrow> Inl AttributeError)"

text \<open>
  A loop \<^verbatim>\<open>for x in xs: print(line(x))\<close>: the lines printed, and the exception that
  ended the loop, if one did.
\<close>

fun print_each :: "(json \<Rightarrow> py_error + string) \<Rightarrow> json list \<Rightarrow> out list \<times> py_error option" where
  "print_each line [] = ([], None)"
| "print_each line (x # xs) =
     (case line x of
        Inl e \<Rightarrow> ([], Some e)
      | Inr l \<Rightarrow> (case print_each line xs of (outs, err) \<Rightarrow> (Line l # outs, err)))"

text \<open>
  \<^verbatim>\<open>print_interface_trace_raw\<close> from the decoded body \<open>tr\<close> on (the request and
  \<^verbatim>\<open>raise_for_status\<close> come before): the heading, then the first of the cases A (a
  non-empty list whose first element is a list), B (a non-empty list whose first element
  is a dict), C (any list) and the raw dump.
\<close>

definition print_interface_trace_raw :: "string \<Rightarrow> json \<Rightarrow> out list \<times> py_error option" where
  "print_interface_trace_raw title tr =
     (case tr of
        JList (JList h # rest) \<Rightarrow>
          (case print_each hop_line (JList h # rest) of (outs, err) \<Rightarrow> (Title title # outs, err))
      | JList (JObj h # rest) \<Rightarrow>
          (case print_each seg_line (JObj h # rest) of (outs, err) \<Rightarrow> (Title title # outs, err))
      | JList items \<Rightarrow>
          (case print_each item_line items of (outs, err) \<Rightarrow> (Title title # outs, err))
      | _ \<Rightarrow> ([Title title, Line ''   [raw trace]'', RawDump tr], None))"

section \<open>The remote service\<close>

text \<open>
  The script talks to one REST collection at a time: a filtered lookup, a create and a
  partial update. A collection holds resources; a resource has the identity the service
  gave it and its attributes, which a \<^verbatim>\<open>pynetbox\<close> record shows as Python attributes and
  a decoded response as dict entries. The collection also keeps the requests it has
  received, oldest first, and the service may refuse a request (\<open>accepts\<close>), which
  reaches the script as an exception. It stores submitted attributes as they are.

  One type stands for the record of the structured client and for the decoded object of
  the fallback path: \<^verbatim>\<open>r.id\<close> and \<^verbatim>\<open>r["id"]\<close> are both \<open>rid r\<close>, and an attribute
  value is the decoded JSON value the service sent. The structured client differs in one
  respect that the choice-set merge depends on: it hands each dict entry of a list
  attribute to the script as a \<^verbatim>\<open>Record\<close> object, not as a dict.
\<close>

type_synonym attrs = "(string \<times> json) list"

record resource =
  rid :: int
  rattrs :: attrs

datatype call = Get attrs | Create attrs | Update int attrs

record endpoint =
  items :: "resource list"
  next_id :: int
  accepts :: "call \<Rightarrow> bool"
  calls :: "call list"

text \<open>\<^verbatim>\<open>getattr(r, k, default)\<close> on a record, \<^verbatim>\<open>r.get(k, default)\<close> on a decoded object.\<close>

definition attr_default :: "resource \<Rightarrow> string \<Rightarrow> json \<Rightarrow> json" where
  "attr_default r k dflt = dict_get_default (rattrs r) k dflt"

text \<open>A resource passes a filter when it has every attribute of the filter.\<close>

definition matches :: "attrs \<Rightarrow> resource \<Rightarrow> bool" where
  "matches key r = list_all (\<lambda>kv. map_of (rattrs r) (fst kv) = Some (snd kv)) key"

text \<open>
  \<^verbatim>\<open>endpoint.get(**key)\<close> of \<^verbatim>\<open>pynetbox\<close>: \<^verbatim>\<open>None\<close> when nothing passes the filter,
  the resource when one does, and a \<^verbatim>\<open>ValueError\<close> when several do.
\<close>

definition ep_get :: "attrs \<Rightarrow> endpoint \<Rightarrow> (py_error + resource option) \<times> endpoint" where
  "ep_get key e =
     (let e' = e\<lparr>calls := calls e @ [Get key]\<rparr> in
      if \<not> accepts e (Get key) then (Inl RemoteError, e')
      else case filter (matches key) (items e) of
             [] \<Rightarrow> (Inr None, e')
           | [r] \<Rightarrow> (Inr (Some r), e')
           | _ \<Rightarrow> (Inl ValueError, e'))"

text \<open>\<^verbatim>\<open>endpoint.create(attrs)\<close>: the new resource gets the next identity.\<close>

definition ep_create :: "attrs \<Rightarrow> endpoint \<Rightarrow> (py_error + resource) \<times> endpoint" where
  "ep_create a e =
     (let e' = e\<lparr>calls := calls e @ [Create a]\<rparr> in
      if \<not> accepts e (Create a) then (Inl RemoteError, e')
      else let r = \<lparr>rid = next_id e, rattrs = a\<rparr>
           in (Inr r, e'\<lparr>items := items e @ [r], next_id := next_id e + 1\<rparr>))"

fun dict_set :: "string \<Rightarrow> json \<Rightarrow> attrs \<Rightarrow> attrs" where
  "dict_set k v [] = [(k, v)]"
| "dict_set k v (p # ps) = (if fst p = k then (k, v) # ps else p # dict_set k v ps)"

definition patch_attrs :: "attrs \<Rightarrow> attrs \<Rightarrow> attrs" where
  "patch_attrs flds a = fold (\<lambda>kv. dict_set (fst kv) (snd kv)) flds a"

text \<open>
  \<^verbatim>\<open>endpoint.update([{"id": i, **fields}])[0]\<close>: the resource \<open>i\<close> with the given
  attributes overwritten; the service refuses an identity it does not hold.
\<close>

definition ep_update :: "int \<Rightarrow> attrs \<Rightarrow> endpoint \<Rightarrow> (py_error + resource) \<times> endpoint" where
  "ep_update i flds e =
     (let e' = e\<lparr>calls := calls e @ [Update i flds]\<rparr> in
      if \<not> accepts e (Update i flds) then (Inl RemoteError, e')
      else case find (\<lambda>r. rid r = i) (items e) of
             None \<Rightarrow> (Inl RemoteError, e')
           | Some r \<Rightarrow>
               (let r' = r\<lparr>rattrs := patch_attrs flds (rattrs r)\<rparr>
                in (Inr r', e'\<lparr>items := map (\<lambda>x. if rid x = i then r' else x) (items e)\<rparr>)))"

text \<open>
  The same three requests sent with \<^verbatim>\<open>requests\<close>: the list request returns every
  resource that passes the filter (\<^verbatim>\<open>data["results"]\<close>, with \<^verbatim>\<open>data["count"]\<close> their
  number), and \<^verbatim>\<open>raise_for_status\<close> raises when the service refuses.
\<close>

definition http_list :: "attrs \<Rightarrow> endpoint \<Rightarrow> (py_error + resource list) \<times> endpoint" where
  "http_list key e =
     (let e' = e\<lparr>calls := calls e @ [Get key]\<rparr> in
      if \<not> accepts e (Get key) then (Inl RemoteError, e')
      else (Inr (filter (matches key) (items e)), e'))"

definition http_post :: "attrs \<Rightarrow> endpoint \<Rightarrow> (py_error + resource) \<times> endpoint" where
  "http_post a e = ep_create a e"

definition http_patch :: "int \<Rightarrow> attrs \<Rightarrow> endpoint \<Rightarrow> (py_error + resource) \<times> endpoint" where
  "http_patch i flds e = ep_update i flds e"

section \<open>Get or create\<close>

text \<open>
  The loop over \<^verbatim>\<open>("name", "slug")\<close> of \<^verbatim>\<open>get_or_create\<close>: the first of the two that
  is among the attributes with a true value is the lookup key; without one the key is empty.
\<close>

definition lookup_key :: "attrs \<Rightarrow> attrs" where
  "lookup_key a =
     (case map_of a ''name'' of
        Some v \<Rightarrow>
          if truthy v then [(''name'', v)]
          else (case map_of a ''slug'' of
                  Some w \<Rightarrow> if truthy w then [(''slug'', w)] else []
                | None \<Rightarrow> [])
      | None \<Rightarrow>
          (case map_of a ''slug'' of
             Some w \<Rightarrow> if truthy w then [(''slug'', w)] else []
           | None \<Rightarrow> []))"

definition get_or_create :: "attrs \<Rightarrow> endpoint \<Rightarrow> (py_error + resource) \<times> endpoint" where
  "get_or_create a e =
     (case ep_get (lookup_key a) e of
        (Inl err, e1) \<Rightarrow> (Inl err, e1)
      | (Inr (Some obj), e1) \<Rightarrow> (Inr obj, e1)
      | (Inr None, e1) \<Rightarrow> ep_create a e1)"

text \<open>The create requests among the requests received.\<close>

definition is_create :: "call \<Rightarrow> bool" where
  "is_create c = (case c of Create a \<Rightarrow> True | _ \<Rightarrow> False)"

section \<open>Choice sets\<close>

text \<open>
  \<^verbatim>\<open>_vals_from_choices(choices)\<close>. The loop runs over \<^verbatim>\<open>choices or []\<close>; a non-empty
  list adds its first element, a dict its \<^verbatim>\<open>value\<close> entry, and \<^verbatim>\<open>set.add\<close> raises on
  a list or a dict. The desired values are strings, and a string is equal to no other
  kind of value, so membership of a string in the Python set is membership here.

  The flag \<open>records\<close> says that the dict entries met are \<^verbatim>\<open>Record\<close> objects of the
  structured client. Such an object is neither a list, a tuple nor a dict: both
  \<^verbatim>\<open>isinstance\<close> tests fail on it and the loop passes it over.
\<close>

definition hashable :: "json \<Rightarrow> bool" where
  "hashable v = (case v of JList xs \<Rightarrow> False | JObj d \<Rightarrow> False | _ \<Rightarrow> True)"

definition vals_add :: "bool \<Rightarrow> json set \<Rightarrow> json \<Rightarrow> py_error + json set" where
  "vals_add records vals c =
     (case c of
        JList (x # xs) \<Rightarrow> if hashable x then Inr (insert x vals) else Inl TypeError
      | JObj d \<Rightarrow>
          if records then Inr vals
          else (let v = dict_get d ''value''
                in if hashable v then Inr (insert v vals) else Inl TypeError)
      | _ \<Rightarrow> Inr vals)"

fun vals_loop :: "bool \<Rightarrow> json set \<Rightarrow> json list \<Rightarrow> py_error + json set" where
  "vals_loop records vals [] = Inr vals"
| "vals_loop records vals (c # cs) =
     (case vals_add records vals c of
        Inl e \<Rightarrow> Inl e
      | Inr vals' \<Rightarrow> vals_loop records vals' cs)"

definition vals_from_choices :: "bool \<Rightarrow> json \<Rightarrow> py_error + json set" where
  "vals_from_choices records choices =
     (case py_iter (py_or choices (JList [])) of
        Inl e \<Rightarrow> Inl e
      | Inr cs \<Rightarrow> vals_loop records {} cs)"

text \<open>\<^verbatim>\<open>[v for v in values if v not in existing_vals]\<close>\<close>

definition missing_values :: "string list \<Rightarrow> json set \<Rightarrow> string list" where
  "missing_values values existing_vals = filter (\<lambda>v. JStr v \<notin> existing_vals) values"

text \<open>\<^verbatim>\<open>[v, v]\<close>\<close>

definition choice_pair :: "string \<Rightarrow> json" where
  "choice_pair v = JList [JStr v, JStr v]"

text \<open>
  What the normalising loop appends for one entry \<open>c\<close> of the current extra choices: a
  list as it is, a dict as the pair of its \<^verbatim>\<open>value\<close> and its \<^verbatim>\<open>label\<close> (its
  \<^verbatim>\<open>value\<close> when it has no label), anything else nothing, and so nothing for a
  \<^verbatim>\<open>Record\<close> object.
\<close>

definition norm_entry :: "bool \<Rightarrow> json \<Rightarrow> json list" where
  "norm_entry records c =
     (case c of
        JList xs \<Rightarrow> [JList xs]
      | JObj d \<Rightarrow>
          if records then []
          else [JList [dict_get d ''value'', dict_get_default d ''label'' (dict_get d ''value'')]]
      | _ \<Rightarrow> [])"

definition norm_extra :: "bool \<Rightarrow> json list \<Rightarrow> json list" where
  "norm_extra records current_extra = concat (map (norm_entry records) current_extra)"

text \<open>
  The merge of the structured-client path for an existing set \<open>cs\<close>: \<open>None\<close> when no value
  is missing, else the \<^verbatim>\<open>extra_choices\<close> of the update. The dict entries of
  \<^verbatim>\<open>choices\<close> and \<^verbatim>\<open>extra_choices\<close> are \<^verbatim>\<open>Record\<close> objects here.
\<close>

definition merge_client :: "resource \<Rightarrow> string list \<Rightarrow> py_error + json option" where
  "merge_client cs values =
     (case vals_from_choices True (attr_default cs ''choices'' (JList [])) of
        Inl e \<Rightarrow> Inl e
      | Inr existing_vals \<Rightarrow>
          (let missing = missing_values values existing_vals in
           if missing = [] then Inr None
           else case py_iter (py_or (attr_default cs ''extra_choices'' (JList [])) (JList [])) of
                  Inl e \<Rightarrow> Inl e
                | Inr current_extra \<Rightarrow>
                    Inr (Some (JList (norm_extra True current_extra @ map choice_pair missing)))))"

text \<open>
  The merge of the fallback path, on the decoded object \<open>cs\<close>, whose dict entries are
  dicts.
\<close>

definition merge_http :: "resource \<Rightarrow> string list \<Rightarrow> py_error + json option" where
  "merge_http cs values =
     (case vals_from_choices False (dict_get_default (rattrs cs) ''choices'' (JList [])) of
        Inl e \<Rightarrow> Inl e
      | Inr existing_vals \<Rightarrow>
          (let missing = missing_values values existing_vals in
           if missing = [] then Inr None
           else case py_iter (py_or (dict_get (rattrs cs) ''extra_choices'') (JList [])) of
                  Inl e \<Rightarrow> Inl e
                | Inr current_extra \<Rightarrow>
                    Inr (Some (JList (norm_extra False current_extra @ map choice_pair missing)))))"




definition choice_set_payload :: "string \<Rightarrow> string list \<Rightarrow> attrs" where
  "choice_set_payload name values =
     [(''name'', JStr name), (''extra_choices'', JList (map choice_pair values))]"

text \<open>\<^verbatim>\<open>ensure_choice_set\<close> when the client has the choice-set collection.\<close>

definition ensure_choice_set_client ::
    "string \<Rightarrow> string list \<Rightarrow> endpoint \<Rightarrow> (py_error + resource) \<times> endpoint" where
  "ensure_choice_set_client name values e =
     (case ep_get [(''name'', JStr name)] e of
        (Inl err, e1) \<Rightarrow> (Inl err, e1)
      | (Inr (Some cs), e1) \<Rightarrow>
          (case merge_client cs values of
             Inl err \<Rightarrow> (Inl err, e1)
           | Inr None \<Rightarrow> (Inr cs, e1)
           | Inr (Some extra) \<Rightarrow> ep_update (rid cs) [(''extra_choices'', extra)] e1)
      | (Inr None, e1) \<Rightarrow> ep_create (choice_set_payload name values) e1)"

text \<open>\<^verbatim>\<open>ensure_choice_set\<close> on the fallback path: the first result of the list request.\<close>

definition ensure_choice_set_http ::
    "string \<Rightarrow> string list \<Rightarrow> endpoint \<Rightarrow> (py_error + resource) \<times> endpoint" where
  "ensure_choice_set_http name values e =
     (case http_list [(''name'', JStr name)] e of
        (Inl err, e1) \<Rightarrow> (Inl err, e1)
      | (Inr (cs # others), e1) \<Rightarrow>
          (case merge_http cs values of
             Inl err \<Rightarrow> (Inl err, e1)
           | Inr None \<Rightarrow> (Inr cs, e1)
           | Inr (Some extra) \<Rightarrow> http_patch (rid cs) [(''extra_choices'', extra)] e1)
      | (Inr [], e1) \<Rightarrow> http_post (choice_set_payload name values) e1)"

text \<open>
  The state \<^verbatim>\<open>ensure_cf_select\<close> works on: whether the client has the choice-set
  collection (\<^verbatim>\<open>_pynetbox_has_choice_sets()\<close>), that collection, and the custom fields.
\<close>

record netbox =
  has_choice_sets :: bool
  choice_sets :: endpoint
  custom_fields :: endpoint

definition ensure_choice_set ::
    "string \<Rightarrow> string list \<Rightarrow> netbox \<Rightarrow> (py_error + resource) \<times> netbox" where
  "ensure_choice_set name values nb =
     (case (if has_choice_sets nb then ensure_choice_set_client name values (choice_sets nb)
            else ensure_choice_set_http name values (choice_sets nb)) of
        (res, e1) \<Rightarrow> (res, nb\<lparr>choice_sets := e1\<rparr>))"

section \<open>Select custom fields\<close>

text \<open>\<^verbatim>\<open>a == n\<close> for a decoded value and an integer: \<^verbatim>\<open>True\<close> is 1 and \<^verbatim>\<open>False\<close> is 0.\<close>

definition py_eq_int :: "json \<Rightarrow> int \<Rightarrow> bool" where
  "py_eq_int a n =
     (case a of JInt m \<Rightarrow> m = n | JBool b \<Rightarrow> (if b then 1 else 0) = n | _ \<Rightarrow> False)"

definition select_payload :: "string \<Rightarrow> string \<Rightarrow> int \<Rightarrow> attrs" where
  "select_payload name label cs_id =
     [(''name'', JStr name), (''type'', JStr ''select''), (''label'', JStr label),
      (''required'', JBool False), (''object_types'', JList [JStr ''dcim.device'']),
      (''choice_set'', JInt cs_id), (''selection_mode'', JStr ''single'')]"

text \<open>
  The identity the field is bound to now: the \<^verbatim>\<open>id\<close> of its \<^verbatim>\<open>choice_set\<close>
  attribute, \<^verbatim>\<open>None\<close> when that attribute is missing or has no \<^verbatim>\<open>id\<close>.
\<close>

definition current_cs_id :: "resource \<Rightarrow> json" where
  "current_cs_id cf =
     (case attr_default cf ''choice_set'' JNull of JObj d \<Rightarrow> dict_get d ''id'' | _ \<Rightarrow> JNull)"

text \<open>
  \<^verbatim>\<open>ensure_cf_select\<close>: the choice set is resolved first (its name defaults to the
  field's), then the field is looked up by name; a missing field is created with the
  payload, a field bound to another identity is updated with it, and a field bound to the
  resolved set is returned.
\<close>

definition ensure_cf_select ::
    "string \<Rightarrow> string \<Rightarrow> string list \<Rightarrow> string option \<Rightarrow> netbox
      \<Rightarrow> (py_error + resource) \<times> netbox" where
  "ensure_cf_select name label values choice_set_name nb =
     (let csn = (case choice_set_name of None \<Rightarrow> name | Some n \<Rightarrow> if n = [] then name else n)
      in case ensure_choice_set csn values nb of
           (Inl err, nb1) \<Rightarrow> (Inl err, nb1)
         | (Inr cs, nb1) \<Rightarrow>
             (let cs_id = rid cs;
                  payload = select_payload name label cs_id
              in case ep_get [(''name'', JStr name)] (custom_fields nb1) of
                   (Inl err, f1) \<Rightarrow> (Inl err, nb1\<lparr>custom_fields := f1\<rparr>)
                 | (Inr None, f1) \<Rightarrow>
                     (case ep_create payload f1 of
                        (res, f2) \<Rightarrow> (res, nb1\<lparr>custom_fields := f2\<rparr>))
                 | (Inr (Some cf), f1) \<Rightarrow>
                     if \<not> py_eq_int (current_cs_id cf) cs_id then
                       (case ep_update (rid cf) payload f1 of
                          (res, f2) \<Rightarrow> (res, nb1\<lparr>custom_fields := f2\<rparr>))
                     else (Inr cf, nb1\<lparr>custom_fields := f1\<rparr>)))"

section \<open>Cabling\<close>

text \<open>
  A termination as the script holds it: its identity, and what reading its \<^verbatim>\<open>cable\<close>
  attribute does: the read raises, the attribute is missing, or it has a value.
\<close>

datatype attr_read = ReadFails | Absent | Has json

record terminus =
  tid :: int
  cable_attr :: attr_read

text \<open>\<^verbatim>\<open>getattr(obj, "cable", default)\<close>\<close>

definition getattr_default :: "attr_read \<Rightarrow> json \<Rightarrow> py_error + json" where
  "getattr_default a dflt =
     (case a of ReadFails \<Rightarrow> Inl RemoteError | Absent \<Rightarrow> Inr dflt | Has v \<Rightarrow> Inr v)"

text \<open>\<^verbatim>\<open>_has_cable\<close>: the \<^verbatim>\<open>try\<close> turns every exception of the read into \<^verbatim>\<open>False\<close>.\<close>

definition has_cable :: "terminus \<Rightarrow> bool" where
  "has_cable t = (case getattr_default (cable_attr t) JNull of Inl e \<Rightarrow> False | Inr v \<Rightarrow> truthy v)"

definition cable_payload :: "string \<Rightarrow> int \<Rightarrow> string \<Rightarrow> int \<Rightarrow> attrs" where
  "cable_payload a_type a_id b_type b_id =
     [(''a_terminations'', JList [JObj [(''object_type'', JStr a_type), (''object_id'', JInt a_id)]]),
      (''b_terminations'', JList [JObj [(''object_type'', JStr b_type), (''object_id'', JInt b_id)]])]"

definition cable_ifaces :: "terminus \<Rightarrow> terminus \<Rightarrow> endpoint \<Rightarrow> (py_error + unit) \<times> endpoint" where
  "cable_ifaces a_iface b_iface cables =
     (if has_cable a_iface \<or> has_cable b_iface then (Inr (), cables)
      else case ep_create (cable_payload ''dcim.interface'' (tid a_iface)
                             ''dcim.interface'' (tid b_iface)) cables of
             (Inl err, c1) \<Rightarrow> (Inl err, c1)
           | (Inr r, c1) \<Rightarrow> (Inr (), c1))"

definition cable_power :: "terminus \<Rightarrow> terminus \<Rightarrow> endpoint \<Rightarrow> (py_error + unit) \<times> endpoint" where
  "cable_power power_port power_outlet cables =
     (if has_cable power_port \<or> has_cable power_outlet then (Inr (), cables)
      else case ep_create (cable_payload ''dcim.powerport'' (tid power_port)
                             ''dcim.poweroutlet'' (tid power_outlet)) cables of
             (Inl err, c1) \<Rightarrow> (Inl err, c1)
           | (Inr r, c1) \<Rightarrow> (Inr (), c1))"

section \<open>Metrics\<close>

text \<open>
  \<^verbatim>\<open>int(v)\<close>. The conversion of a string is Python's own and is taken as given
  (\<open>int_of_str\<close>).
\<close>

definition py_int :: "(string \<Rightarrow> py_error + int) \<Rightarrow> json \<Rightarrow> py_error + int" where
  "py_int int_of_str v =
     (case v of
        JInt n \<Rightarrow> Inr n
      | JBool b \<Rightarrow> Inr (if b then 1 else 0)
      | JStr s \<Rightarrow> int_of_str s
      | _ \<Rightarrow> Inl TypeError)"

text \<open>
  One turn of the roll-up loop: \<^verbatim>\<open>cf = getattr(d, "custom_fields", {}) or {}\<close>, then
  \<^verbatim>\<open>int(cf.get("estimated_watts") or 0)\<close>.
\<close>

definition device_watts :: "(string \<Rightarrow> py_error + int) \<Rightarrow> resource \<Rightarrow> py_error + int" where
  "device_watts int_of_str d =
     (case py_or (attr_default d ''custom_fields'' (JObj [])) (JObj []) of
        JObj cf \<Rightarrow> py_int int_of_str (py_or (dict_get cf ''estimated_watts'') (JInt 0))
      | _ \<Rightarrow> Inl AttributeError)"

fun rack_watts_from ::
    "(string \<Rightarrow> py_error + int) \<Rightarrow> int \<Rightarrow> resource list \<Rightarrow> py_error + int" where
  "rack_watts_from int_of_str acc [] = Inr acc"
| "rack_watts_from int_of_str acc (d # ds) =
     (case device_watts int_of_str d of
        Inl e \<Rightarrow> Inl e
      | Inr w \<Rightarrow> rack_watts_from int_of_str (acc + w) ds)"

text \<open>\<^verbatim>\<open>rack_watts\<close> after the loop over \<^verbatim>\<open>devices_in_rack\<close>.\<close>

definition rack_watts :: "(string \<Rightarrow> py_error + int) \<Rightarrow> resource list \<Rightarrow> py_error + int" where
  "rack_watts int_of_str devices_in_rack = rack_watts_from int_of_str 0 devices_in_rack"

text \<open>
  \<^verbatim>\<open>len([i for i in all_tor_ifaces if getattr(i, 'cable', None)])\<close>; outside
  \<^verbatim>\<open>_has_cable\<close> a failing read is not caught.
\<close>

fun used_ports :: "terminus list \<Rightarrow> py_error + nat" where
  "used_ports [] = Inr 0"
| "used_ports (i # rest) =
     (case getattr_default (cable_attr i) JNull of
        Inl e \<Rightarrow> Inl e
      | Inr v \<Rightarrow>
          (case used_ports rest of
             Inl e \<Rightarrow> Inl e
           | Inr n \<Rightarrow> Inr (if truthy v then Suc n else n)))"

text \<open>
  \<^verbatim>\<open>a / b\<close> on two integers raises on a zero divisor. Floating-point numbers are not
  represented: the quotient of two integers as a float (\<open>fdiv\<close>), \<^verbatim>\<open>round(x, 1)\<close>
  (\<open>round1\<close>) and \<^verbatim>\<open>0.0\<close> (\<open>fzero\<close>) are taken as given, over any type \<open>'f\<close> of floats.
\<close>

definition py_truediv :: "(int \<Rightarrow> int \<Rightarrow> 'f) \<Rightarrow> int \<Rightarrow> int \<Rightarrow> py_error + 'f" where
  "py_truediv fdiv a b = (if b = 0 then Inl ZeroDivisionError else Inr (fdiv a b))"

text \<open>
  \<^verbatim>\<open>util = round(100 * used_ports / total_ports, 1) if total_ports else 0.0\<close>, with the
  two counts before it.
\<close>

definition util ::
    "(int \<Rightarrow> int \<Rightarrow> 'f) \<Rightarrow> ('f \<Rightarrow> 'f) \<Rightarrow> 'f \<Rightarrow> terminus list \<Rightarrow> py_error + 'f" where
  "util fdiv round1 fzero all_tor_ifaces =
     (let total_ports = length all_tor_ifaces in
      case used_ports all_tor_ifaces of
        Inl e \<Rightarrow> Inl e
      | Inr used \<Rightarrow>
          if total_ports \<noteq> 0 then
            (case py_truediv fdiv (100 * int used) (int total_ports) of
               Inl e \<Rightarrow> Inl e
             | Inr q \<Rightarrow> Inr (round1 q))
          else Inr fzero)"

section \<open>Worked examples\<close>

text \<open>A collection that holds nothing yet and accepts every request.\<close>

definition fresh_endpoint :: endpoint where
  "fresh_endpoint = \<lparr>items = [], next_id = 1, accepts = (\<lambda>c. True), calls = []\<rparr>"

text \<open>A collection that holds the given resources and accepts every request.\<close>

definition endpoint_holding :: "resource list \<Rightarrow> endpoint" where
  "endpoint_holding rs =
     \<lparr>items = rs, next_id = int (length rs) + 1, accepts = (\<lambda>c. True), calls = []\<rparr>"

definition netbox_holding :: "bool \<Rightarrow> resource list \<Rightarrow> resource list \<Rightarrow> netbox" where
  "netbox_holding client_has_sets sets flds =
     \<lparr>has_choice_sets = client_has_sets,
      choice_sets = endpoint_holding sets,
      custom_fields = endpoint_holding flds\<rparr>"

text \<open>
  The choice set \<^verbatim>\<open>hpc_role\<close> with the identity 1 and the extra choices \<open>cpu\<close> and
  \<open>gpu\<close>, and with the further attributes given.
\<close>

definition role_set :: "attrs \<Rightarrow> resource" where
  "role_set further =
     \<lparr>rid = 1,
      rattrs = [(''name'', JStr ''hpc_role''),
                (''extra_choices'', JList [choice_pair ''cpu'', choice_pair ''gpu''])]
               @ further\<rparr>"


text \<open>
  The choice set \<^verbatim>\<open>hpc_role\<close> with the identity 1 whose one extra choice is a
  label/value record.
\<close>

definition labelled_set :: resource where
  "labelled_set =
     \<lparr>rid = 1,
      rattrs = [(''name'', JStr ''hpc_role''),
                (''extra_choices'',
                 JList [JObj [(''value'', JStr ''cpu''), (''label'', JStr ''CPU'')]])]\<rparr>"

text \<open>The select field \<^verbatim>\<open>hpc_role\<close> with the identity 7, bound to the choice set \<open>i\<close>.\<close>

definition role_field :: "int \<Rightarrow> resource" where
  "role_field i =
     \<lparr>rid = 7,
      rattrs = [(''name'', JStr ''hpc_role''), (''type'', JStr ''select''),
                (''choice_set'', JObj [(''id'', JInt i), (''name'', JStr ''hpc_role'')])]\<rparr>"

text \<open>A device whose \<^verbatim>\<open>estimated_watts\<close> custom field is \<open>n\<close>.\<close>

definition device_drawing :: "int \<Rightarrow> resource" where
  "device_drawing n =
     \<lparr>rid = 0,
      rattrs = [(''custom_fields'',
                 JObj [(''cluster_name'', JStr ''atlas''), (''estimated_watts'', JInt n)])]\<rparr>"

text \<open>
  The estimated wattage a device declares: the integer under \<^verbatim>\<open>estimated_watts\<close> in its
  custom fields.
\<close>

definition estimated_watts :: "resource \<Rightarrow> int option" where
  "estimated_watts d =
     (case map_of (rattrs d) ''custom_fields'' of
        Some (JObj cf) \<Rightarrow>
          (case map_of cf ''estimated_watts'' of Some (JInt n) \<Rightarrow> Some n | _ \<Rightarrow> None)
      | _ \<Rightarrow> None)"

text \<open>
  An instance of the float operations in exact arithmetic, for the worked examples only:
  the quotient as a rational number, and rounding to one decimal place.
\<close>

definition rat_div :: "int \<Rightarrow> int \<Rightarrow> rat" where
  "rat_div a b = of_int a / of_int b"

definition rat_round1 :: "rat \<Rightarrow> rat" where
  "rat_round1 x = of_int (round (x * 10)) / 10"

section \<open>Properties\<close>

lemma py_in_str_sublist: "py_in_str sub s = sublist sub s"
proof (induction s)
  case Nil
  then show ?case by simp
next
  case (Cons c cs)
  then show ?case by (cases sub) (simp_all add: sublist_Cons_right)
qed

subsection \<open>Interface type inference\<close>

lemma first_matching_rule_iface:
  "first_matching_rule iface_rules s =
    (if sublist ''100g'' s then ''100gbase-x-qsfp28''
     else if sublist ''25g'' s then ''25gbase-x-sfp28''
     else if sublist ''40g'' s then ''40gbase-x-qsfpp''
     else if sublist ''10g'' s then ''10gbase-x-sfpp''
     else if sublist ''1g'' s \<or> sublist ''1000'' s then ''1000base-t''
     else if sublist ''lag'' s \<or> sublist ''bond'' s \<or> sublist ''port-channel'' s then ''lag''
     else ''other'')"
  by (simp add: iface_rules_def)

text \<open>
  Claim C5. For every hint, the inferred type is the one the first matching rule of the
  table 100g, 25g, 40g, 10g, 1g/1000, lag/bond/port-channel selects on the lower-cased
  hint, and \<open>other\<close> when no rule matches. In particular a hint containing \<open>100g\<close> has
  the 100G type and not the 10G type, and a hint that contains \<open>lag\<close>, \<open>bond\<close> or
  \<open>port-channel\<close> and matches no earlier rule has the link-aggregation type.
\<close>

theorem normalize_iface_type_first_match:
  "normalize_iface_type hint = first_matching_rule iface_rules (lower hint)
   \<and> (sublist ''100g'' (lower hint) \<longrightarrow>
        normalize_iface_type hint = ''100gbase-x-qsfp28''
        \<and> normalize_iface_type hint \<noteq> ''10gbase-x-sfpp'')
   \<and> ((sublist ''lag'' (lower hint) \<or> sublist ''bond'' (lower hint)
         \<or> sublist ''port-channel'' (lower hint))
        \<and> \<not> sublist ''100g'' (lower hint) \<and> \<not> sublist ''25g'' (lower hint)
        \<and> \<not> sublist ''40g'' (lower hint) \<and> \<not> sublist ''10g'' (lower hint)
        \<and> \<not> sublist ''1g'' (lower hint) \<and> \<not> sublist ''1000'' (lower hint) \<longrightarrow>
        normalize_iface_type hint = ''lag'')"
proof -
  have eq: "normalize_iface_type hint = first_matching_rule iface_rules (lower hint)"
  proof (cases "hint = []")
    case True
    then show ?thesis
      by (simp add: normalize_iface_type_def first_matching_rule_iface lower_def)
  next
    case False
    then show ?thesis
      by (simp add: normalize_iface_type_def first_matching_rule_iface py_in_str_sublist Let_def)
  qed
  show ?thesis
    unfolding eq first_matching_rule_iface by simp
qed

theorem normalize_iface_type_first_match_witness:
  "sublist ''100g'' (lower ''100g-uplink'')
   \<and> normalize_iface_type ''100g-uplink'' = ''100gbase-x-qsfp28''
   \<and> sublist ''bond'' (lower ''Bond0'')
   \<and> normalize_iface_type ''Bond0'' = ''lag''"
proof -
  have a: "sublist ''100g'' (lower ''100g-uplink'')"
    by code_simp
  have b: "sublist ''bond'' (lower ''Bond0'')"
    by code_simp
  have c: "\<not> sublist ''100g'' (lower ''Bond0'')" "\<not> sublist ''25g'' (lower ''Bond0'')"
    "\<not> sublist ''40g'' (lower ''Bond0'')" "\<not> sublist ''10g'' (lower ''Bond0'')"
    "\<not> sublist ''1g'' (lower ''Bond0'')" "\<not> sublist ''1000'' (lower ''Bond0'')"
    by code_simp+
  show ?thesis
    using a b c normalize_iface_type_first_match [of "''100g-uplink''"]
      normalize_iface_type_first_match [of "''Bond0''"]
    by blast
qed

subsection \<open>Get or create\<close>

lemma matches_lookup_key: "rattrs r = a \<Longrightarrow> matches (lookup_key a) r"
  by (auto simp: matches_def lookup_key_def split: option.splits)

lemma get_or_create_found:
  assumes "accepts e (Get (lookup_key a))"
      and "filter (matches (lookup_key a)) (items e) = [r]"
  shows "get_or_create a e = (Inr r, e\<lparr>calls := calls e @ [Get (lookup_key a)]\<rparr>)"
  using assms by (simp add: get_or_create_def ep_get_def)

lemma get_or_create_cases:
  assumes "get_or_create a e = (Inr r1, e1)"
  shows "accepts e1 = accepts e \<and> filter (matches (lookup_key a)) (items e1) = [r1]
         \<and> accepts e (Get (lookup_key a))
         \<and> length (filter is_create (calls e1)) \<le> length (filter is_create (calls e)) + 1"
proof (cases "filter (matches (lookup_key a)) (items e)")
  case Nil
  with assms show ?thesis
    by (auto simp: get_or_create_def ep_get_def ep_create_def Let_def is_create_def
        matches_lookup_key split: if_splits)
next
  case (Cons x xs)
  with assms show ?thesis
    by (cases xs) (auto simp: get_or_create_def ep_get_def Let_def is_create_def split: if_splits)
qed

text \<open>
  Claim C2. When \<^verbatim>\<open>get_or_create\<close> returns a resource, a second call with the same
  attributes returns that same resource, leaves the collection as it is, and the two calls
  together send at most one create request. When the lookup finds a resource, the first
  call already returns it as it is: the collection is unchanged and the only request is
  the lookup, so there is neither a create nor an update.
\<close>

theorem get_or_create_twice:
  "(get_or_create a e = (Inr r1, e1) \<longrightarrow>
      (\<exists>e2. get_or_create a e1 = (Inr r1, e2)
           \<and> items e2 = items e1
           \<and> length (filter is_create (calls e2)) \<le> length (filter is_create (calls e)) + 1))
   \<and> (accepts e (Get (lookup_key a)) \<and> filter (matches (lookup_key a)) (items e) = [r] \<longrightarrow>
        (\<exists>e'. get_or_create a e = (Inr r, e') \<and> items e' = items e
            \<and> calls e' = calls e @ [Get (lookup_key a)]))"
proof (intro conjI impI)
  assume g: "get_or_create a e = (Inr r1, e1)"
  note c = get_or_create_cases [OF g]
  have "get_or_create a e1 = (Inr r1, e1\<lparr>calls := calls e1 @ [Get (lookup_key a)]\<rparr>)"
    using c by (intro get_or_create_found) simp_all
  then show "\<exists>e2. get_or_create a e1 = (Inr r1, e2)
           \<and> items e2 = items e1
           \<and> length (filter is_create (calls e2)) \<le> length (filter is_create (calls e)) + 1"
    using c by (simp add: is_create_def)
next
  assume "accepts e (Get (lookup_key a)) \<and> filter (matches (lookup_key a)) (items e) = [r]"
  then show "\<exists>e'. get_or_create a e = (Inr r, e') \<and> items e' = items e
            \<and> calls e' = calls e @ [Get (lookup_key a)]"
    by (simp add: get_or_create_found)
qed

theorem get_or_create_twice_witness:
  "fst (get_or_create [(''name'', JStr ''SF-Dogpatch''), (''slug'', JStr ''sf-dogpatch'')]
          fresh_endpoint)
     = Inr \<lparr>rid = 1, rattrs = [(''name'', JStr ''SF-Dogpatch''), (''slug'', JStr ''sf-dogpatch'')]\<rparr>
   \<and> fst (get_or_create [(''name'', JStr ''SF-Dogpatch''), (''slug'', JStr ''sf-dogpatch'')]
           (snd (get_or_create [(''name'', JStr ''SF-Dogpatch''), (''slug'', JStr ''sf-dogpatch'')]
                   fresh_endpoint)))
     = Inr \<lparr>rid = 1, rattrs = [(''name'', JStr ''SF-Dogpatch''), (''slug'', JStr ''sf-dogpatch'')]\<rparr>
   \<and> length (filter is_create (calls (snd
         (get_or_create [(''name'', JStr ''SF-Dogpatch''), (''slug'', JStr ''sf-dogpatch'')]
           (snd (get_or_create [(''name'', JStr ''SF-Dogpatch''), (''slug'', JStr ''sf-dogpatch'')]
                   fresh_endpoint)))))) \<le> 1"
proof -
  let ?a = "[(''name'', JStr ''SF-Dogpatch''), (''slug'', JStr ''sf-dogpatch'')]"
  let ?r = "\<lparr>rid = 1, rattrs = ?a\<rparr>"
  obtain e1 where g: "get_or_create ?a fresh_endpoint = (Inr ?r, e1)"
    by (simp add: get_or_create_def ep_get_def ep_create_def lookup_key_def fresh_endpoint_def
        Let_def)
  have "\<exists>e2. get_or_create ?a e1 = (Inr ?r, e2)
           \<and> items e2 = items e1
           \<and> length (filter is_create (calls e2))
                \<le> length (filter is_create (calls fresh_endpoint)) + 1"
    using g get_or_create_twice [of ?a fresh_endpoint ?r e1] by blast
  then show ?thesis
    using g by (auto simp: fresh_endpoint_def)
qed

subsection \<open>Choice sets\<close>

lemma map_of_dict_set: "map_of (dict_set k v a) k = Some v"
  by (induction a) auto

lemma find_by_rid:
  "distinct (map rid xs) \<Longrightarrow> x \<in> set xs \<Longrightarrow> find (\<lambda>r. rid r = rid x) xs = Some x"
  by (induction xs) (auto simp: image_iff)


lemma ep_update_held:
  assumes "accepts e (Update (rid x) flds)"
      and "distinct (map rid (items e))"
      and "x \<in> set (items e)"
  shows "ep_update (rid x) flds e =
          (Inr (x\<lparr>rattrs := patch_attrs flds (rattrs x)\<rparr>),
           e\<lparr>calls := calls e @ [Update (rid x) flds],
             items := map (\<lambda>y. if rid y = rid x then x\<lparr>rattrs := patch_attrs flds (rattrs x)\<rparr> else y)
                        (items e)\<rparr>)"
  using assms by (simp add: ep_update_def find_by_rid Let_def)




















text \<open>
  On a label/value record the two merges differ: the structured-client path passes the
  record over, so that the update loses the entry, and the fallback path keeps it as a
  pair.
\<close>

lemma merges_differ_on_records:
  "merge_client labelled_set [''gpu'', ''storage'']
     = Inr (Some (JList [choice_pair ''gpu'', choice_pair ''storage'']))
   \<and> merge_http labelled_set [''gpu'', ''storage'']
     = Inr (Some (JList [JList [JStr ''cpu'', JStr ''CPU''],
                         choice_pair ''gpu'', choice_pair ''storage'']))"
  by (simp add: merge_client_def merge_http_def labelled_set_def vals_from_choices_def
      missing_values_def attr_default_def dict_get_default_def dict_get_def py_or_def
      py_iter_def norm_extra_def norm_entry_def choice_pair_def Let_def)




subsection \<open>Select custom fields\<close>

lemma ensure_choice_set_custom_fields:
  "ensure_choice_set name values nb = (res, nb1) \<Longrightarrow> custom_fields nb1 = custom_fields nb"
  by (auto simp: ensure_choice_set_def split: prod.splits)

lemma map_of_dict_set_other: "k' \<noteq> k \<Longrightarrow> map_of (dict_set k v a) k' = map_of a k'"
  by (induction a) auto

lemma select_payload_binding:
  "map_of (patch_attrs (select_payload name label i) a) ''choice_set'' = Some (JInt i)"
  by (simp add: patch_attrs_def select_payload_def map_of_dict_set map_of_dict_set_other)

text \<open>
  Claim C9. Let \<^verbatim>\<open>ensure_choice_set\<close> resolve the choice set \<open>cs\<close>, and let the lookup
  find the field \<open>cf\<close>. If the identity \<open>cf\<close> is bound to differs from that of \<open>cs\<close>,
  \<^verbatim>\<open>ensure_cf_select\<close> sends exactly one update, for \<open>cf\<close>, whose payload binds the
  field to \<open>cs\<close>, and where the service accepts it the updated field is returned. If
  the two identities are equal, \<open>cf\<close> is returned as it is: the fields are unchanged and
  the only request is the lookup.
\<close>

theorem ensure_cf_select_repoints_binding:
  assumes "ensure_choice_set
             (case choice_set_name of None \<Rightarrow> name | Some n \<Rightarrow> if n = [] then name else n)
             values nb = (Inr cs, nb1)"
      and "accepts (custom_fields nb) (Get [(''name'', JStr name)])"
      and "filter (matches [(''name'', JStr name)]) (items (custom_fields nb)) = [cf]"
  shows "(\<not> py_eq_int (current_cs_id cf) (rid cs) \<longrightarrow>
           (\<exists>res nb'. ensure_cf_select name label values choice_set_name nb = (res, nb')
              \<and> calls (custom_fields nb')
                  = calls (custom_fields nb) @ [Get [(''name'', JStr name)],
                      Update (rid cf) (select_payload name label (rid cs))]
              \<and> (accepts (custom_fields nb) (Update (rid cf) (select_payload name label (rid cs)))
                    \<and> distinct (map rid (items (custom_fields nb))) \<longrightarrow>
                  (\<exists>updated. res = Inr updated \<and> rid updated = rid cf
                      \<and> map_of (rattrs updated) ''choice_set'' = Some (JInt (rid cs))))))
       \<and> (py_eq_int (current_cs_id cf) (rid cs) \<longrightarrow>
           (\<exists>nb'. ensure_cf_select name label values choice_set_name nb = (Inr cf, nb')
              \<and> items (custom_fields nb') = items (custom_fields nb)
              \<and> calls (custom_fields nb') = calls (custom_fields nb) @ [Get [(''name'', JStr name)]]))"
proof -
  let ?f1 = "(custom_fields nb)\<lparr>calls := calls (custom_fields nb) @ [Get [(''name'', JStr name)]]\<rparr>"
  let ?payload = "select_payload name label (rid cs)"
  have cfs: "custom_fields nb1 = custom_fields nb"
    using assms(1) by (rule ensure_choice_set_custom_fields)
  have g: "ep_get [(''name'', JStr name)] (custom_fields nb1) = (Inr (Some cf), ?f1)"
    using assms(2,3) by (simp add: cfs ep_get_def)
  have "cf \<in> set (filter (matches [(''name'', JStr name)]) (items (custom_fields nb)))"
    by (simp add: assms(3))
  then have mem: "cf \<in> set (items (custom_fields nb))"
    by simp
  show ?thesis
  proof (intro conjI impI)
    assume ne: "\<not> py_eq_int (current_cs_id cf) (rid cs)"
    obtain res f2 where u: "ep_update (rid cf) ?payload ?f1 = (res, f2)"
      by (cases "ep_update (rid cf) ?payload ?f1")
    have r: "ensure_cf_select name label values choice_set_name nb
              = (res, nb1\<lparr>custom_fields := f2\<rparr>)"
      using ne by (simp add: ensure_cf_select_def assms(1) g u)
    have c: "calls f2 = calls (custom_fields nb) @ [Get [(''name'', JStr name)],
                      Update (rid cf) ?payload]"
      using u by (auto simp: ep_update_def Let_def split: if_splits option.splits)
    have ok: "\<exists>updated. res = Inr updated \<and> rid updated = rid cf
                \<and> map_of (rattrs updated) ''choice_set'' = Some (JInt (rid cs))"
      if "accepts (custom_fields nb) (Update (rid cf) ?payload)
            \<and> distinct (map rid (items (custom_fields nb)))"
    proof -
      have "ep_update (rid cf) ?payload ?f1 =
          (Inr (cf\<lparr>rattrs := patch_attrs ?payload (rattrs cf)\<rparr>),
           ?f1\<lparr>calls := calls ?f1 @ [Update (rid cf) ?payload],
             items := map (\<lambda>y. if rid y = rid cf
                                 then cf\<lparr>rattrs := patch_attrs ?payload (rattrs cf)\<rparr> else y)
                        (items ?f1)\<rparr>)"
        using that mem by (intro ep_update_held) simp_all
      with u show ?thesis
        by (auto simp: select_payload_binding)
    qed
    show "\<exists>res nb'. ensure_cf_select name label values choice_set_name nb = (res, nb')
              \<and> calls (custom_fields nb')
                  = calls (custom_fields nb) @ [Get [(''name'', JStr name)],
                      Update (rid cf) (select_payload name label (rid cs))]
              \<and> (accepts (custom_fields nb) (Update (rid cf) (select_payload name label (rid cs)))
                    \<and> distinct (map rid (items (custom_fields nb))) \<longrightarrow>
                  (\<exists>updated. res = Inr updated \<and> rid updated = rid cf
                      \<and> map_of (rattrs updated) ''choice_set'' = Some (JInt (rid cs))))"
      using r c ok by auto
  next
    assume eq: "py_eq_int (current_cs_id cf) (rid cs)"
    have "ensure_cf_select name label values choice_set_name nb
              = (Inr cf, nb1\<lparr>custom_fields := ?f1\<rparr>)"
      using eq by (simp add: ensure_cf_select_def assms(1) g)
    then show "\<exists>nb'. ensure_cf_select name label values choice_set_name nb = (Inr cf, nb')
              \<and> items (custom_fields nb') = items (custom_fields nb)
              \<and> calls (custom_fields nb') = calls (custom_fields nb) @ [Get [(''name'', JStr name)]]"
      by simp
  qed
qed

theorem ensure_cf_select_repoints_binding_witness:
  "\<not> py_eq_int (current_cs_id (role_field 2)) 1
   \<and> calls (custom_fields (snd (ensure_cf_select ''hpc_role'' ''HPC Role'' [''cpu'', ''gpu''] None
        (netbox_holding True
           [role_set [(''choices'', JList [choice_pair ''cpu'', choice_pair ''gpu''])]]
           [role_field 2]))))
      = [Get [(''name'', JStr ''hpc_role'')],
         Update 7 (select_payload ''hpc_role'' ''HPC Role'' 1)]
   \<and> py_eq_int (current_cs_id (role_field 1)) 1
   \<and> fst (ensure_cf_select ''hpc_role'' ''HPC Role'' [''cpu'', ''gpu''] None
        (netbox_holding True
           [role_set [(''choices'', JList [choice_pair ''cpu'', choice_pair ''gpu''])]]
           [role_field 1]))
      = Inr (role_field 1)
   \<and> calls (custom_fields (snd (ensure_cf_select ''hpc_role'' ''HPC Role'' [''cpu'', ''gpu''] None
        (netbox_holding True
           [role_set [(''choices'', JList [choice_pair ''cpu'', choice_pair ''gpu''])]]
           [role_field 1]))))
      = [Get [(''name'', JStr ''hpc_role'')]]"
proof -
  let ?cs = "role_set [(''choices'', JList [choice_pair ''cpu'', choice_pair ''gpu''])]"
  have cs: "\<exists>nb1. ensure_choice_set (case None of None \<Rightarrow> ''hpc_role'' | Some n \<Rightarrow> if n = [] then ''hpc_role'' else n)
               [''cpu'', ''gpu''] (netbox_holding True [?cs] [role_field i]) = (Inr ?cs, nb1)" for i
    by (simp add: ensure_choice_set_def ensure_choice_set_client_def netbox_holding_def
      endpoint_holding_def role_set_def ep_get_def matches_def merge_client_def
      vals_from_choices_def vals_add_def hashable_def missing_values_def attr_default_def
      dict_get_default_def dict_get_def py_or_def py_iter_def choice_pair_def Let_def)
  have acc: "accepts (custom_fields (netbox_holding True [?cs] [role_field i])) (Get [(''name'', JStr ''hpc_role'')])" for i
    by (simp add: netbox_holding_def endpoint_holding_def)
  have flt: "filter (matches [(''name'', JStr ''hpc_role'')])
               (items (custom_fields (netbox_holding True [?cs] [role_field i]))) = [role_field i]" for i
    by (simp add: netbox_holding_def endpoint_holding_def matches_def role_field_def)
  have ne: "\<not> py_eq_int (current_cs_id (role_field 2)) 1"
    and eq: "py_eq_int (current_cs_id (role_field 1)) 1"
    by (simp_all add: py_eq_int_def current_cs_id_def role_field_def attr_default_def
        dict_get_default_def dict_get_def)
  have rid: "rid ?cs = 1" "rid (role_field i) = 7" for i
    by (simp_all add: role_set_def role_field_def)
  have c0: "calls (custom_fields (netbox_holding True [?cs] [role_field i])) = []" for i
    by (simp add: netbox_holding_def endpoint_holding_def)
  obtain nb2 where n2: "ensure_choice_set (case None of None \<Rightarrow> ''hpc_role'' | Some n \<Rightarrow> if n = [] then ''hpc_role'' else n)
               [''cpu'', ''gpu''] (netbox_holding True [?cs] [role_field 2]) = (Inr ?cs, nb2)"
    using cs [of 2] by blast
  obtain nb1 where n1: "ensure_choice_set (case None of None \<Rightarrow> ''hpc_role'' | Some n \<Rightarrow> if n = [] then ''hpc_role'' else n)
               [''cpu'', ''gpu''] (netbox_holding True [?cs] [role_field 1]) = (Inr ?cs, nb1)"
    using cs [of 1] by blast
  note t2 = ensure_cf_select_repoints_binding [OF n2 acc flt, of "''HPC Role''"]
  note t1 = ensure_cf_select_repoints_binding [OF n1 acc flt, of "''HPC Role''"]
  show ?thesis
    using ne eq t1 t2 unfolding rid c0 by auto
qed

subsection \<open>The trace printer\<close>

lemma print_each_lines: "set (fst (print_each line xs)) \<subseteq> range Line"
  by (induction xs) (auto split: sum.splits prod.splits)

lemma print_each_no_dump: "print_each line xs = (outs, err) \<Longrightarrow> RawDump d \<notin> set outs"
  using print_each_lines [of line xs] by auto

lemma trace_list_no_dump:
  "RawDump d \<notin> set (fst (print_interface_trace_raw title (JList xs)))"
proof (cases xs)
  case Nil
  then show ?thesis by (simp add: print_interface_trace_raw_def)
next
  case (Cons x rest)
  then show ?thesis
    by (cases x)
       (auto simp: print_interface_trace_raw_def simp del: print_each.simps
             split: prod.splits dest: print_each_no_dump)
qed

text \<open>
  Claim C3, as the code has it. For every decoded body that is not a list the printer
  writes the heading, the line \<open>[raw trace]\<close> and the dump of the body, and raises
  nothing. A list never leads to the dump: the empty list prints the heading alone, and
  every other list is printed by one of the cases A, B and C.
\<close>

theorem trace_raw_dump_only_for_non_lists:
  "((\<forall>xs. tr \<noteq> JList xs) \<longrightarrow>
      print_interface_trace_raw title tr
        = ([Title title, Line ''   [raw trace]'', RawDump tr], None))
   \<and> print_interface_trace_raw title (JList []) = ([Title title], None)
   \<and> RawDump d \<notin> set (fst (print_interface_trace_raw title (JList xs)))"
proof (intro conjI impI)
  assume "\<forall>xs. tr \<noteq> JList xs"
  then show "print_interface_trace_raw title tr
        = ([Title title, Line ''   [raw trace]'', RawDump tr], None)"
    by (cases tr) (simp_all add: print_interface_trace_raw_def)
next
  show "print_interface_trace_raw title (JList []) = ([Title title], None)"
    by (simp add: print_interface_trace_raw_def)
next
  show "RawDump d \<notin> set (fst (print_interface_trace_raw title (JList xs)))"
    by (rule trace_list_no_dump)
qed

theorem trace_raw_dump_witness:
  "(\<forall>xs. JObj [(''name'', JStr ''eth0'')] \<noteq> JList xs)
   \<and> print_interface_trace_raw ''Trace'' (JObj [(''name'', JStr ''eth0'')])
       = ([Title ''Trace'', Line ''   [raw trace]'', RawDump (JObj [(''name'', JStr ''eth0'')])],
          None)"
  using trace_raw_dump_only_for_non_lists [of "JObj [(''name'', JStr ''eth0'')]" "''Trace''"]
  by simp

text \<open>
  Claim C3 as stated fails on the empty list: it is printed by case C, whose loop has
  nothing to print, and the dump is not reached.
\<close>

theorem trace_empty_list_counterexample:
  "print_interface_trace_raw ''Trace'' (JList []) = ([Title ''Trace''], None)
   \<and> RawDump (JList []) \<notin> set (fst (print_interface_trace_raw ''Trace'' (JList [])))"
  by (simp add: print_interface_trace_raw_def)

text \<open>
  Claim C8. On the body \<^verbatim>\<open>[[{"device": {"name": "GPU-1"}}, null, {"device": {"name":
  "TOR-1"}}]]\<close> the printer writes, after the heading, exactly one line, of the form left,
  label, right: the label is the literal \<open>cable\<close>, and each end is rendered from its
  device name, as \<open>term:@GPU-1\<close> and \<open>term:@TOR-1\<close>. The line has the indent of three
  spaces and the two spaces on each side of the arrow that the format string has.
\<close>

theorem trace_single_hop:
  "print_interface_trace_raw title
     (JList [JList [JObj [(''device'', JObj [(''name'', JStr ''GPU-1'')])],
                    JNull,
                    JObj [(''device'', JObj [(''name'', JStr ''TOR-1'')])]]])
   = ([Title title,
       Line (''   '' @ ''term:@GPU-1'' @ ''  --['' @ ''cable'' @ '']-->  '' @ ''term:@TOR-1'')],
      None)"
  by (simp add: print_interface_trace_raw_def hop_line_def py_len_def py_iter_def paired_line_def
      term_to_str_def py_or_def dict_get_def dict_get_default_def py_str_def)

theorem trace_single_hop_witness:
  "print_interface_trace_raw ''Trace GPU-SFDP-01 eth0-100G''
     (JList [JList [JObj [(''device'', JObj [(''name'', JStr ''GPU-1'')])],
                    JNull,
                    JObj [(''device'', JObj [(''name'', JStr ''TOR-1'')])]]])
   = ([Title ''Trace GPU-SFDP-01 eth0-100G'',
       Line ''   term:@GPU-1  --[cable]-->  term:@TOR-1''],
      None)"
  using trace_single_hop [of "''Trace GPU-SFDP-01 eth0-100G''"] by simp

subsection \<open>Cabling\<close>

text \<open>
  Claim C6. When either termination reports a cable, \<^verbatim>\<open>cable_ifaces\<close> and
  \<^verbatim>\<open>cable_power\<close> return without an error and leave the cable collection as it was: no
  request is sent and no cable is created. A read of the cable attribute that raises
  counts as no cable, and a call with such a termination does what the call with the
  attribute missing does.
\<close>

theorem connect_noop_when_cabled:
  "(has_cable a \<or> has_cable b \<longrightarrow>
      cable_ifaces a b cables = (Inr (), cables) \<and> cable_power a b cables = (Inr (), cables))
   \<and> \<not> has_cable (t\<lparr>cable_attr := ReadFails\<rparr>)
   \<and> has_cable (t\<lparr>cable_attr := ReadFails\<rparr>) = has_cable (t\<lparr>cable_attr := Absent\<rparr>)
   \<and> cable_ifaces (a\<lparr>cable_attr := ReadFails\<rparr>) b cables
       = cable_ifaces (a\<lparr>cable_attr := Absent\<rparr>) b cables
   \<and> cable_ifaces a (b\<lparr>cable_attr := ReadFails\<rparr>) cables
       = cable_ifaces a (b\<lparr>cable_attr := Absent\<rparr>) cables
   \<and> cable_power (a\<lparr>cable_attr := ReadFails\<rparr>) b cables
       = cable_power (a\<lparr>cable_attr := Absent\<rparr>) b cables
   \<and> cable_power a (b\<lparr>cable_attr := ReadFails\<rparr>) cables
       = cable_power a (b\<lparr>cable_attr := Absent\<rparr>) cables"
  by (simp add: cable_ifaces_def cable_power_def has_cable_def getattr_default_def)

theorem connect_noop_when_cabled_witness:
  "has_cable \<lparr>tid = 11, cable_attr = Has (JObj [(''id'', JInt 4)])\<rparr>
   \<and> cable_ifaces \<lparr>tid = 11, cable_attr = Has (JObj [(''id'', JInt 4)])\<rparr>
        \<lparr>tid = 12, cable_attr = Absent\<rparr> fresh_endpoint = (Inr (), fresh_endpoint)
   \<and> cable_power \<lparr>tid = 11, cable_attr = Has (JObj [(''id'', JInt 4)])\<rparr>
        \<lparr>tid = 12, cable_attr = Absent\<rparr> fresh_endpoint = (Inr (), fresh_endpoint)"
proof -
  have h: "has_cable \<lparr>tid = 11, cable_attr = Has (JObj [(''id'', JInt 4)])\<rparr>"
    by (simp add: has_cable_def getattr_default_def)
  show ?thesis
    using h connect_noop_when_cabled
      [of "\<lparr>tid = 11, cable_attr = Has (JObj [(''id'', JInt 4)])\<rparr>"
          "\<lparr>tid = 12, cable_attr = Absent\<rparr>" fresh_endpoint]
    by blast
qed

subsection \<open>Metrics\<close>

lemma device_watts_int:
  assumes "map_of (rattrs d) ''custom_fields'' = Some (JObj cf)"
      and "map_of cf ''estimated_watts'' = Some (JInt n)"
  shows "device_watts ios d = Inr n"
proof (cases "cf = []")
  case True
  with assms show ?thesis by simp
next
  case False
  with assms show ?thesis
    by (simp add: device_watts_def attr_default_def dict_get_default_def dict_get_def
        py_or_def py_int_def)
qed

lemma device_watts_estimated:
  "estimated_watts d = Some n \<Longrightarrow> device_watts ios d = Inr n"
  by (auto simp: estimated_watts_def split: option.splits json.splits
      intro: device_watts_int)

lemma rack_watts_from_sum:
  "\<forall>d \<in> set ds. device_watts ios d = Inr (w d) \<Longrightarrow>
   rack_watts_from ios acc ds = Inr (acc + sum_list (map w ds))"
  by (induction ds arbitrary: acc) simp_all

text \<open>
  Claim C7. When every device placed in the rack declares an integer estimated wattage,
  the roll-up is the sum of these values over the devices; for devices declaring 180,
  220, 20, 800, 800, 250 and 350 it is 2620.
\<close>

theorem rack_watts_is_sum:
  "((\<forall>d \<in> set devices. estimated_watts d \<noteq> None)
     \<longrightarrow> rack_watts ios devices = Inr (sum_list (map (\<lambda>d. the (estimated_watts d)) devices)))
   \<and> rack_watts ios (map device_drawing [180, 220, 20, 800, 800, 250, 350]) = Inr 2620"
proof (intro conjI impI)
  assume a: "\<forall>d \<in> set devices. estimated_watts d \<noteq> None"
  have "\<forall>d \<in> set devices. device_watts ios d = Inr (the (estimated_watts d))"
    using a device_watts_estimated by fastforce
  then have "rack_watts_from ios 0 devices
      = Inr (0 + sum_list (map (\<lambda>d. the (estimated_watts d)) devices))"
    by (rule rack_watts_from_sum)
  then show "rack_watts ios devices = Inr (sum_list (map (\<lambda>d. the (estimated_watts d)) devices))"
    by (simp add: rack_watts_def)
next
  have dw: "device_watts ios (device_drawing n) = Inr n" for n
    by (rule device_watts_estimated) (simp add: estimated_watts_def device_drawing_def)
  show "rack_watts ios (map device_drawing [180, 220, 20, 800, 800, 250, 350]) = Inr 2620"
    by (simp add: rack_watts_def dw)
qed

theorem rack_watts_is_sum_witness:
  "estimated_watts (device_drawing 800) = Some 800
   \<and> estimated_watts (device_drawing 250) = Some 250
   \<and> rack_watts (\<lambda>s. Inl ValueError) [device_drawing 800, device_drawing 250] = Inr 1050"
proof -
  have e: "estimated_watts (device_drawing n) = Some n" for n
    by (simp add: estimated_watts_def device_drawing_def)
  have h: "\<forall>d \<in> set [device_drawing 800, device_drawing 250]. estimated_watts d \<noteq> None"
    by (simp add: e)
  show ?thesis
    using h rack_watts_is_sum [of "[device_drawing 800, device_drawing 250]" "\<lambda>s. Inl ValueError"]
    by (simp add: e)
qed

lemma used_ports_error: "used_ports ifaces = Inl e \<Longrightarrow> e = RemoteError"
  by (induction ifaces arbitrary: e)
     (auto simp: getattr_default_def split: attr_read.splits sum.splits)

lemma used_ports_count:
  "used_ports ifaces = Inr n \<Longrightarrow> n = length (filter has_cable ifaces)"
  by (induction ifaces arbitrary: n)
     (auto simp: has_cable_def getattr_default_def split: attr_read.splits sum.splits if_splits)

lemma used_ports_returns:
  "\<forall>i \<in> set ifaces. cable_attr i \<noteq> ReadFails \<Longrightarrow> \<exists>n. used_ports ifaces = Inr n"
  by (induction ifaces) (auto simp: getattr_default_def split: attr_read.splits sum.splits)

text \<open>
  Claim C10. The utilization never raises a division by zero: with no port it is 0.0,
  and otherwise, when every cable attribute can be read, it is the quotient of 100 times
  the number of ports with a cable by the number of ports, rounded to one decimal place
  (division and rounding being Python's, on floats).
\<close>

theorem util_division_guarded:
  "util fdiv round1 fzero [] = Inr fzero
   \<and> util fdiv round1 fzero ifaces \<noteq> Inl ZeroDivisionError
   \<and> (ifaces \<noteq> [] \<and> (\<forall>i \<in> set ifaces. cable_attr i \<noteq> ReadFails) \<longrightarrow>
        util fdiv round1 fzero ifaces =
          Inr (round1 (fdiv (100 * int (length (filter has_cable ifaces)))
                          (int (length ifaces)))))"
proof (intro conjI impI)
  show "util fdiv round1 fzero [] = Inr fzero"
    by (simp add: util_def)
next
  show "util fdiv round1 fzero ifaces \<noteq> Inl ZeroDivisionError"
    using used_ports_error [of ifaces ZeroDivisionError]
    by (auto simp: util_def py_truediv_def Let_def split: sum.splits)
next
  assume a: "ifaces \<noteq> [] \<and> (\<forall>i \<in> set ifaces. cable_attr i \<noteq> ReadFails)"
  have "\<exists>n. used_ports ifaces = Inr n"
    using a used_ports_returns by blast
  then obtain n where n: "used_ports ifaces = Inr n" by blast
  show "util fdiv round1 fzero ifaces =
          Inr (round1 (fdiv (100 * int (length (filter has_cable ifaces)))
                          (int (length ifaces))))"
    using a n used_ports_count [OF n] by (simp add: util_def py_truediv_def)
qed

theorem util_division_guarded_witness:
  "replicate 6 \<lparr>tid = 1, cable_attr = Has (JObj [(''id'', JInt 4)])\<rparr>
     @ replicate 26 \<lparr>tid = 2, cable_attr = Has JNull\<rparr> \<noteq> []
   \<and> cable_attr \<lparr>tid = 1, cable_attr = Has (JObj [(''id'', JInt 4)])\<rparr> \<noteq> ReadFails
   \<and> cable_attr \<lparr>tid = 2, cable_attr = Has JNull\<rparr> \<noteq> ReadFails
   \<and> util rat_div rat_round1 0
        (replicate 6 \<lparr>tid = 1, cable_attr = Has (JObj [(''id'', JInt 4)])\<rparr>
          @ replicate 26 \<lparr>tid = 2, cable_attr = Has JNull\<rparr>) = Inr (94 / 5)"
proof -
  let ?ifaces = "replicate 6 \<lparr>tid = 1, cable_attr = Has (JObj [(''id'', JInt 4)])\<rparr>
     @ replicate 26 \<lparr>tid = 2, cable_attr = Has JNull\<rparr>"
  have h1: "?ifaces \<noteq> []" by simp
  have h2: "\<forall>i \<in> set ?ifaces. cable_attr i \<noteq> ReadFails" by auto
  have c: "has_cable \<lparr>tid = 1, cable_attr = Has (JObj [(''id'', JInt 4)])\<rparr>"
    "\<not> has_cable \<lparr>tid = 2, cable_attr = Has JNull\<rparr>"
    by (simp_all add: has_cable_def getattr_default_def)
  have r: "rat_round1 (rat_div 600 32) = 94 / 5"
    by (simp add: rat_round1_def rat_div_def round_def)
  show ?thesis
    using h1 h2 util_division_guarded [of rat_div rat_round1 0 ?ifaces]
    by (simp add: c r)
qed

end
